theory Spec2Isabelle
  imports Main
begin

section \<open>JavaScript values and the language operations the library relies on\<close>

text \<open>
  The library is TypeScript; attribute values, the \<^verbatim>\<open>c\<close> of a \<^verbatim>\<open>Case\<close> and the
  \<^verbatim>\<open>expr\<close> of a \<^verbatim>\<open>Switch\<close> have type \<^verbatim>\<open>any\<close>. The model covers the primitive
  values: \<^verbatim>\<open>undefined\<close>, \<^verbatim>\<open>null\<close>, booleans, integer-valued numbers, strings and
  symbols. Objects and non-integer numbers (fractions, NaN, the infinities) are outside
  the model; on the integers of magnitude below \<open>2^53\<close> the operations below are those
  of the language.
\<close>

datatype jsval = JUndefined | JNull | JBool bool | JNum int | JStr string | JSym nat

datatype error = TypeError | RangeError

text \<open>\<^verbatim>\<open>Array.prototype.findIndex\<close>; \<open>None\<close> is the result \<^verbatim>\<open>-1\<close>.\<close>

fun findIndex :: "('a \<Rightarrow> bool) \<Rightarrow> 'a list \<Rightarrow> nat option" where
  "findIndex P [] = None"
| "findIndex P (x # xs) = (if P x then Some 0 else map_option Suc (findIndex P xs))"

text \<open>Truthiness (ToBoolean), as \<^verbatim>\<open>a && !b\<close> tests it.\<close>

fun truthy :: "jsval \<Rightarrow> bool" where
  "truthy JUndefined = False"
| "truthy JNull = False"
| "truthy (JBool b) = b"
| "truthy (JNum n) = (n \<noteq> 0)"
| "truthy (JStr s) = (s \<noteq> [])"
| "truthy (JSym k) = True"

definition digitChars :: string where
  "digitChars = ''0123456789''"

fun digitsOf :: "nat \<Rightarrow> string" where
  "digitsOf n = (if n < 10 then [digitChars ! n] else digitsOf (n div 10) @ [digitChars ! (n mod 10)])"

definition NumberToString :: "int \<Rightarrow> string" where
  "NumberToString n = (if n < 0 then CHR ''-'' # digitsOf (nat (- n)) else digitsOf (nat n))"

text \<open>
  ToString, as a template literal applies it to a substituted value. A symbol cannot be
  converted: the language raises TypeError.
\<close>

fun ToString :: "jsval \<Rightarrow> error + string" where
  "ToString JUndefined = Inr ''undefined''"
| "ToString JNull = Inr ''null''"
| "ToString (JBool b) = Inr (if b then ''true'' else ''false'')"
| "ToString (JNum n) = Inr (NumberToString n)"
| "ToString (JStr s) = Inr s"
| "ToString (JSym k) = Inl TypeError"

text \<open>
  ToNumber on a string, for the literals this model reads: white space around the text
  is dropped, the empty text is 0, and an optionally signed run of decimal digits is its
  value. \<open>None\<close> stands for a text that is not a number. The language also reads
  literals with a fraction, an exponent or a radix prefix and the word Infinity; the
  model does not, it answers \<open>None\<close> for them too, and nothing below is stated at such
  a text.
\<close>

definition isWhiteSpace :: "char \<Rightarrow> bool" where
  "isWhiteSpace c = (c \<in> {CHR '' '', CHR 0x09, CHR 0x0A, CHR 0x0B, CHR 0x0C, CHR 0x0D})"

definition trim :: "string \<Rightarrow> string" where
  "trim s = rev (dropWhile isWhiteSpace (rev (dropWhile isWhiteSpace s)))"

definition digitValue :: "char \<Rightarrow> nat option" where
  "digitValue c = findIndex (\<lambda>d. d = c) digitChars"

fun decimalDigits :: "nat \<Rightarrow> string \<Rightarrow> nat option" where
  "decimalDigits acc [] = Some acc"
| "decimalDigits acc (c # cs) =
     (case digitValue c of None \<Rightarrow> None | Some d \<Rightarrow> decimalDigits (10 * acc + d) cs)"

definition unsignedDecimal :: "string \<Rightarrow> int option" where
  "unsignedDecimal s = (if s = [] then None else map_option int (decimalDigits 0 s))"

definition StringToNumber :: "string \<Rightarrow> int option" where
  "StringToNumber s =
     (case trim s of
        [] \<Rightarrow> Some 0
      | c # cs \<Rightarrow>
          if c = CHR ''-'' then map_option uminus (unsignedDecimal cs)
          else if c = CHR ''+'' then unsignedDecimal cs
          else unsignedDecimal (c # cs))"

text \<open>
  Loose equality \<^verbatim>\<open>x == y\<close> (IsLooselyEqual). Values of one type are compared as
  they are; \<^verbatim>\<open>null\<close> and \<^verbatim>\<open>undefined\<close> equal each other and nothing else; a
  boolean is converted to a number (true to 1, false to 0) and a string compared with a
  number is converted to a number first. \<open>numberEq n y\<close> is \<^verbatim>\<open>n == y\<close> for a number
  \<open>n\<close>.
\<close>

definition boolToNumber :: "bool \<Rightarrow> int" where
  "boolToNumber b = (if b then 1 else 0)"

fun numberEq :: "int \<Rightarrow> jsval \<Rightarrow> bool" where
  "numberEq n (JNum m) = (n = m)"
| "numberEq n (JStr s) = (StringToNumber s = Some n)"
| "numberEq n (JBool b) = (n = boolToNumber b)"
| "numberEq n JUndefined = False"
| "numberEq n JNull = False"
| "numberEq n (JSym k) = False"

fun looseEq :: "jsval \<Rightarrow> jsval \<Rightarrow> bool" where
  "looseEq JUndefined y = (y = JUndefined \<or> y = JNull)"
| "looseEq JNull y = (y = JUndefined \<or> y = JNull)"
| "looseEq (JBool a) (JBool b) = (a = b)"
| "looseEq (JBool a) y = numberEq (boolToNumber a) y"
| "looseEq (JNum n) y = numberEq n y"
| "looseEq (JStr s) (JStr t) = (s = t)"
| "looseEq (JStr s) (JNum m) = numberEq m (JStr s)"
| "looseEq (JStr s) (JBool b) = numberEq (boolToNumber b) (JStr s)"
| "looseEq (JStr s) y = False"
| "looseEq (JSym k) (JSym l) = (k = l)"
| "looseEq (JSym k) y = False"



text \<open>
  \<^verbatim>\<open>String.prototype.repeat\<close>: a negative count raises RangeError. The limit an
  engine puts on the length of a string, and the depth of its call stack, are not
  modelled.
\<close>

definition repeat :: "string \<Rightarrow> int \<Rightarrow> error + string" where
  "repeat s count = (if count < 0 then Inl RangeError else Inr (concat (replicate (nat count) s)))"

text \<open>\<^verbatim>\<open>Array.prototype.join\<close> on an array of strings.\<close>

fun join :: "string \<Rightarrow> string list \<Rightarrow> string" where
  "join sep [] = []"
| "join sep [x] = x"
| "join sep (x # y # ys) = x @ sep @ join sep (y # ys)"

text \<open>\<^verbatim>\<open>xs.splice(index, 1)\<close>: the array with the item at \<open>index\<close> removed.\<close>

definition splice1 :: "nat \<Rightarrow> 'a list \<Rightarrow> 'a list" where
  "splice1 index xs = take index xs @ drop (Suc index) xs"

definition newline :: string where
  "newline = [CHR 0x0A]"

section \<open>The element tree\<close>

text \<open>
  \<^verbatim>\<open>type Node = Element | string | Node[]\<close>. An element's name is a tag name or one
  of the module's symbols \<^verbatim>\<open>Fragment\<close>, \<^verbatim>\<open>HTML\<close>, \<^verbatim>\<open>HEAD\<close>, \<^verbatim>\<open>CASE\<close>,
  \<^verbatim>\<open>DEFAULT\<close>. \<^verbatim>\<open>Props\<close> is an object with string keys: an association list in the
  order \<^verbatim>\<open>Object.keys\<close> enumerates it, its keys distinct.
\<close>

datatype ename = Tag string | Fragment | HTML | HEAD | CASE | DEFAULT

type_synonym props = "(string \<times> jsval) list"

datatype node = Text string | Arr "node list" | Element ename props "node list"

text \<open>\<^verbatim>\<open>props[k]\<close>: a key the object does not have reads as \<^verbatim>\<open>undefined\<close>.\<close>

definition getProp :: "props \<Rightarrow> string \<Rightarrow> jsval" where
  "getProp ps k = (case map_of ps k of None \<Rightarrow> JUndefined | Some v \<Rightarrow> v)"

text \<open>
  \<^verbatim>\<open>
  function flatten(children: Node[]) {
      const result: Node[] = [];
      children.forEach(c => {
          if (c instanceof Array) result.push(...flatten(c));
          else if (c instanceof Element && c.name == Fragment) result.push(...flatten(c.children));
          else result.push(c);
      });
      return result;
  }
  \<close>
\<close>

fun flatten :: "node list \<Rightarrow> node list" where
  "flatten [] = []"
| "flatten (Arr xs # cs) = flatten xs @ flatten cs"
| "flatten (Element nm ps ch # cs) =
     (if nm = Fragment then flatten ch else [Element nm ps ch]) @ flatten cs"
| "flatten (Text s # cs) = Text s # flatten cs"

text \<open>
  The constructor of class \<^verbatim>\<open>Element\<close>:
  \<^verbatim>\<open>constructor(public name, public props, children) { this.children = flatten(children); }\<close>
\<close>

definition newElement :: "ename \<Rightarrow> props \<Rightarrow> node list \<Rightarrow> node" where
  "newElement nm ps children = Element nm ps (flatten children)"

text \<open>
  \<^verbatim>\<open>createElement\<close> for a name that is not a generator function; \<open>None\<close> is the
  \<^verbatim>\<open>null\<close> that JSX passes for an element without attributes.
\<close>

definition createElement :: "ename \<Rightarrow> props option \<Rightarrow> node list \<Rightarrow> node" where
  "createElement nm ps children =
     (if nm = Fragment then newElement Fragment [] children
      else newElement nm (case ps of None \<Rightarrow> [] | Some p \<Rightarrow> p) children)"

fun elemChildren :: "node \<Rightarrow> node list" where
  "elemChildren (Element nm ps ch) = ch"
| "elemChildren (Text s) = []"
| "elemChildren (Arr xs) = []"

section \<open>The components\<close>

text \<open>
  \<^verbatim>\<open>
  export const HtmlPage = (props, children) => { return new Element(HTML, props, children); }
  export const Head = (props, children) => { return new Element(HEAD, props, children); }
  export const If = ({ cond }, children) => {
      if (cond) return new Element(Fragment, {}, children);
      else return new Element(Fragment, {}, []);
  }
  export const Case = ({ c }, children) => { return new Element(CASE, { c }, children); }
  export const Default = (_, children) => { return new Element(DEFAULT, {}, children); }
  \<close>
  \<open>If_cond\<close> is the component \<^verbatim>\<open>If\<close>.
\<close>

definition HtmlPage :: "props \<Rightarrow> node list \<Rightarrow> node" where
  "HtmlPage ps children = newElement HTML ps children"

definition Head :: "props \<Rightarrow> node list \<Rightarrow> node" where
  "Head ps children = newElement HEAD ps children"

definition If_cond :: "bool \<Rightarrow> node list \<Rightarrow> node" where
  "If_cond cond children =
     (if cond then newElement Fragment [] children else newElement Fragment [] [])"

definition Case :: "jsval \<Rightarrow> node list \<Rightarrow> node" where
  "Case c children = newElement CASE [(''c'', c)] children"

definition Default :: "node list \<Rightarrow> node" where
  "Default children = newElement DEFAULT [] children"

text \<open>
  The two predicates \<^verbatim>\<open>Switch\<close> searches with:
  \<^verbatim>\<open>c instanceof Element && c.name == CASE && c.props.c == expr\<close> and
  \<^verbatim>\<open>c instanceof Element && c.name == DEFAULT\<close>.
\<close>

fun isCaseFor :: "jsval \<Rightarrow> node \<Rightarrow> bool" where
  "isCaseFor expr (Element nm ps ch) = (nm = CASE \<and> looseEq (getProp ps ''c'') expr)"
| "isCaseFor expr (Text s) = False"
| "isCaseFor expr (Arr xs) = False"

fun isDefault :: "node \<Rightarrow> bool" where
  "isDefault (Element nm ps ch) = (nm = DEFAULT)"
| "isDefault (Text s) = False"
| "isDefault (Arr xs) = False"

text \<open>
  \<^verbatim>\<open>
  export const Switch = ({ expr }, children) => {
      const found = children.find(c => c instanceof Element && c.name == CASE && c.props.c == expr);
      if (found) return new Element(Fragment, {}, found.children);
      const def = children.find(c => c instanceof Element && c.name == DEFAULT);
      if (def) return new Element(Fragment, {}, def.children);
      return new Element(Fragment, {}, []);
  };
  \<close>
\<close>

definition Switch :: "jsval \<Rightarrow> node list \<Rightarrow> node" where
  "Switch expr children =
     (case find (isCaseFor expr) children of
        Some found \<Rightarrow> newElement Fragment [] (elemChildren found)
      | None \<Rightarrow>
          (case find isDefault children of
             Some def \<Rightarrow> newElement Fragment [] (elemChildren def)
           | None \<Rightarrow> newElement Fragment [] []))"

section \<open>Rendering\<close>

text \<open>
  \<^verbatim>\<open>useSelfCloseTags?: boolean | string[]\<close>. The record below is the options object
  as \<^verbatim>\<open>renderInternal\<close> reads it, after \<^verbatim>\<open>render\<close> has filled in the defaults.
  The indentation level and \<^verbatim>\<open>indentSize\<close> are integers.
\<close>

datatype selfclose = SCBool bool | SCList "string list"

record RenderOptions =
  indent :: bool
  indentString :: string
  indentSize :: int
  useSelfCloseTags :: selfclose

text \<open>
  \<^verbatim>\<open>
  function createIndent(options, indentation) {
      if (!options.indent) return "";
      if (options.indentString != "") return options.indentString.repeat(indentation);
      if (options.indentSize != 0) return " ".repeat(indentation * options.indentSize);
      return "";
  }
  \<close>
\<close>

definition createIndent :: "RenderOptions \<Rightarrow> int \<Rightarrow> error + string" where
  "createIndent options indentation =
     (if \<not> indent options then Inr []
      else if indentString options \<noteq> [] then repeat (indentString options) indentation
      else if indentSize options \<noteq> 0 then repeat '' '' (indentation * indentSize options)
      else Inr [])"

text \<open>
  \<^verbatim>\<open>createAttrs\<close> joins, for every key of the object, the text
  \<^verbatim>\<open>(space)key="value"\<close>, the value converted by the template literal.
\<close>

definition attrText :: "string \<Rightarrow> string \<Rightarrow> string" where
  \<open>attrText k s = '' '' @ k @ ''="'' @ s @ ''"''\<close>

fun createAttrs :: "props \<Rightarrow> error + string" where
  "createAttrs [] = Inr []"
| "createAttrs ((k, v) # ps) =
     (case ToString v of
        Inl e \<Rightarrow> Inl e
      | Inr s \<Rightarrow> (case createAttrs ps of Inl e \<Rightarrow> Inl e | Inr r \<Rightarrow> Inr (attrText k s @ r)))"

text \<open>
  \<^verbatim>\<open>props[k] = v\<close>: the value of a key the object has is overwritten where the key
  stands; a new key is added after the others.
\<close>

fun setProp :: "props \<Rightarrow> string \<Rightarrow> jsval \<Rightarrow> props" where
  "setProp [] k v = [(k, v)]"
| "setProp ((k', w) # ps) k v = (if k' = k then (k, v) # ps else (k', w) # setProp ps k v)"

text \<open>
  \<^verbatim>\<open>if (node.props.className && !node.props.class) node.props.class = node.props.className;\<close>
  The source writes into the element's own object. The model passes the updated
  attributes on to \<^verbatim>\<open>createAttrs\<close> instead of storing them; the stored state is
  \<open>written\<close> below, and \<open>render_written\<close> shows that it does not change a later
  result.
\<close>

definition aliasClass :: "props \<Rightarrow> props" where
  "aliasClass ps =
     (if truthy (getProp ps ''className'') \<and> \<not> truthy (getProp ps ''class'')
      then setProp ps ''class'' (getProp ps ''className'') else ps)"

text \<open>
  \<^verbatim>\<open>options.useSelfCloseTags == true\<close> is a loose comparison. For an array the
  language compares \<^verbatim>\<open>Number(array.join(","))\<close> with 1.
  \<^verbatim>\<open>useSelfCloseTags.includes(node.name)\<close> finds a tag name in the array; a symbol
  is never a member of an array of strings.
\<close>

fun equalsTrue :: "selfclose \<Rightarrow> bool" where
  "equalsTrue (SCBool b) = b"
| "equalsTrue (SCList xs) = (StringToNumber (join '','' xs) = Some 1)"

fun includesName :: "selfclose \<Rightarrow> ename \<Rightarrow> bool" where
  "includesName (SCList xs) (Tag t) = (t \<in> set xs)"
| "includesName sc nm = False"

text \<open>
  The name of the element inside the template literal
  \<^verbatim>\<open>`<${node.name as string}...>`\<close>: a tag name is itself, a symbol raises TypeError.
\<close>

fun nameToString :: "ename \<Rightarrow> error + string" where
  "nameToString (Tag t) = Inr t"
| "nameToString nm = Inl TypeError"

text \<open>
  In the branch for \<^verbatim>\<open>HTML\<close>:
  \<^verbatim>\<open>
  const children = [...node.children];
  let index = children.findIndex(n => n instanceof Element && n.name == HEAD);
  let head: Node[];
  if (index == -1) head = [];
  else { head = (children[index] as Element).children; children.splice(index, 1); }
  \<close>
  \<open>splitHead\<close> returns the pair of \<^verbatim>\<open>head\<close> and \<^verbatim>\<open>children\<close> after these lines.
\<close>

fun isHead :: "node \<Rightarrow> bool" where
  "isHead (Element nm ps ch) = (nm = HEAD)"
| "isHead (Text s) = False"
| "isHead (Arr xs) = False"

definition splitHead :: "node list \<Rightarrow> node list \<times> node list" where
  "splitHead children =
     (case findIndex isHead children of
        None \<Rightarrow> ([], children)
      | Some index \<Rightarrow> (elemChildren (children ! index), splice1 index children))"

text \<open>\<^verbatim>\<open>options.indent ? "\n" : ""\<close>\<close>

definition lineBreak :: "RenderOptions \<Rightarrow> string" where
  "lineBreak options = (if indent options then newline else [])"

lemma findIndex_Some: "findIndex P xs = Some i \<Longrightarrow> i < length xs \<and> P (xs ! i)"
  by (induction xs arbitrary: i) (auto split: if_splits)

lemma size_nth_le: "i < length xs \<Longrightarrow> size (xs ! i) < size_list size xs"
proof (induction xs arbitrary: i)
  case Nil
  then show ?case by simp
next
  case (Cons a xs)
  show ?case
  proof (cases i)
    case 0
    then show ?thesis by simp
  next
    case (Suc j)
    with Cons.prems have "j < length xs" by simp
    from Cons.IH [OF this] Suc show ?thesis by simp
  qed
qed

lemma size_splice1: "size_list size (splice1 i xs) \<le> size_list size (xs :: node list)"
  unfolding splice1_def
  by (induction xs arbitrary: i) (auto simp: take_Cons drop_Cons split: nat.splits intro: le_SucI)

lemma size_elemChildren: "size_list size (elemChildren n) \<le> size n"
  by (cases n) auto

lemma size_splitHead_fst: "size_list size (fst (splitHead ch)) \<le> size_list size ch"
proof (cases "findIndex isHead ch")
  case None
  then show ?thesis by (simp add: splitHead_def)
next
  case (Some i)
  then have "i < length ch" by (simp add: findIndex_Some)
  then have "size (ch ! i) < size_list size ch" by (rule size_nth_le)
  with size_elemChildren [of "ch ! i"] Some show ?thesis
    by (simp add: splitHead_def)
qed

lemma size_splitHead_snd: "size_list size (snd (splitHead ch)) \<le> size_list size ch"
  unfolding splitHead_def
  by (auto split: option.splits simp: size_splice1)

text \<open>
  \<^verbatim>\<open>renderInternal\<close>, with \<open>renderEach ns\<close> for
  \<^verbatim>\<open>ns.map(n => renderInternal(n, options, indentation))\<close>. An exception raised by a
  step is the result \<open>Inl\<close>; the steps are in the order the source runs them.
\<close>

function renderInternal :: "node \<Rightarrow> RenderOptions \<Rightarrow> int \<Rightarrow> error + string"
  and renderEach :: "node list \<Rightarrow> RenderOptions \<Rightarrow> int \<Rightarrow> error + string list" where
  "renderEach [] options indentation = Inr []"
| "renderEach (n # ns) options indentation =
     (case renderInternal n options indentation of
        Inl e \<Rightarrow> Inl e
      | Inr s \<Rightarrow>
          (case renderEach ns options indentation of
             Inl e \<Rightarrow> Inl e
           | Inr ss \<Rightarrow> Inr (s # ss)))"
| "renderInternal (Text s) options indentation =
     (case createIndent options indentation of
        Inl e \<Rightarrow> Inl e
      | Inr indentStr \<Rightarrow> Inr (indentStr @ s))"
| "renderInternal (Arr ns) options indentation =
     (case renderEach ns options indentation of
        Inl e \<Rightarrow> Inl e
      | Inr ss \<Rightarrow> Inr (join (lineBreak options) ss))"
| "renderInternal (Element nm ps ch) options indentation =
     (if nm = Fragment then
        (case renderEach ch options indentation of
           Inl e \<Rightarrow> Inl e
         | Inr ss \<Rightarrow> Inr (join (lineBreak options) ss))
      else if nm = HTML then
        (case createIndent options indentation of
           Inl e \<Rightarrow> Inl e
         | Inr indentStr \<Rightarrow>
        (case renderInternal (Arr (fst (splitHead ch))) options (indentation + 1) of
           Inl e \<Rightarrow> Inl e
         | Inr headText \<Rightarrow>
        (case renderEach (snd (splitHead ch)) options (indentation + 1) of
           Inl e \<Rightarrow> Inl e
         | Inr bodyTexts \<Rightarrow>
             Inr (indentStr @ ''<!DOCTYPE html>'' @ lineBreak options
                @ indentStr @ ''<html>'' @ lineBreak options
                @ indentStr @ ''<head>'' @ lineBreak options
                @ headText
                @ (if indent options \<and> fst (splitHead ch) \<noteq> [] then newline else [])
                @ indentStr @ ''</head>'' @ lineBreak options
                @ indentStr @ ''<body>'' @ lineBreak options
                @ join (lineBreak options) bodyTexts
                @ (if snd (splitHead ch) \<noteq> [] \<and> indent options then newline else [])
                @ indentStr @ ''</body>'' @ lineBreak options
                @ indentStr @ ''</html>''))))
      else
        (let selfClose = (ch = [] \<and> (equalsTrue (useSelfCloseTags options)
                                      \<or> includesName (useSelfCloseTags options) nm)) in
         case createAttrs (aliasClass ps) of
           Inl e \<Rightarrow> Inl e
         | Inr attrs \<Rightarrow>
        (case createIndent options indentation of
           Inl e \<Rightarrow> Inl e
         | Inr indentStr \<Rightarrow>
        (case nameToString nm of
           Inl e \<Rightarrow> Inl e
         | Inr name \<Rightarrow>
             if selfClose then Inr (indentStr @ ''<'' @ name @ attrs @ '' /'' @ ''>'')
             else
               (case renderEach ch options (indentation + 1) of
                  Inl e \<Rightarrow> Inl e
                | Inr ss \<Rightarrow>
                    Inr (indentStr @ ''<'' @ name @ attrs @ ''>''
                       @ (if ch \<noteq> [] \<and> indent options then newline else [])
                       @ join (lineBreak options) ss
                       @ (if ch \<noteq> [] \<and> indent options then newline @ indentStr else [])
                       @ ''</'' @ name @ ''>'')))))) "
  by pat_completeness auto
termination
proof (relation "measure (\<lambda>x. case x of
      Inl (n, _, _) \<Rightarrow> 2 * size n + (case n of Element _ _ _ \<Rightarrow> 1 | _ \<Rightarrow> 0)
    | Inr (ns, _, _) \<Rightarrow> 2 * size_list size ns)", goal_cases)
  case 1
  show ?case by simp
next
  case (2 n ns options indentation)
  show ?case by (simp split: node.splits)
next
  case (3 n ns options indentation s)
  show ?case by simp
next
  case (4 ns options indentation)
  show ?case by simp
next
  case (5 nm ps ch options indentation)
  show ?case by simp
next
  case (6 nm ps ch options indentation indentStr)
  from size_splitHead_fst [of ch] show ?case by simp
next
  case (7 nm ps ch options indentation indentStr headText)
  from size_splitHead_snd [of ch] show ?case by simp
next
  case 8
  then show ?case by simp
qed

text \<open>
  \<^verbatim>\<open>
  export function render(top, options = {}, indentation = 0) {
      options = { indent: false, indentString: "", indentSize: 4, useSelfCloseTags: true, ...options };
      return renderInternal(top, options, indentation);
  }
  \<close>
  The options a caller gives are a record of optional fields; \<open>None\<close> is a key the
  caller left out.
\<close>

record GivenOptions =
  givenIndent :: "bool option"
  givenIndentString :: "string option"
  givenIndentSize :: "int option"
  givenUseSelfCloseTags :: "selfclose option"

definition noOptions :: GivenOptions where
  "noOptions = \<lparr>givenIndent = None, givenIndentString = None, givenIndentSize = None,
     givenUseSelfCloseTags = None\<rparr>"

definition withDefaults :: "GivenOptions \<Rightarrow> RenderOptions" where
  "withDefaults given =
     \<lparr>indent = (case givenIndent given of None \<Rightarrow> False | Some b \<Rightarrow> b),
      indentString = (case givenIndentString given of None \<Rightarrow> [] | Some s \<Rightarrow> s),
      indentSize = (case givenIndentSize given of None \<Rightarrow> 4 | Some k \<Rightarrow> k),
      useSelfCloseTags = (case givenUseSelfCloseTags given of None \<Rightarrow> SCBool True | Some u \<Rightarrow> u)\<rparr>"

definition render :: "node \<Rightarrow> GivenOptions \<Rightarrow> int \<Rightarrow> error + string" where
  "render topNode given indentation = renderInternal topNode (withDefaults given) indentation"

text \<open>
  The only state that rendering changes is the attribute \<^verbatim>\<open>class\<close> that the last
  branch writes into the object of the element it renders. \<open>written nd\<close> is the tree
  \<open>nd\<close> after a rendering of it that returned: every element that went through the
  last branch holds the aliased attributes. (A \<^verbatim>\<open>HEAD\<close> element that a document
  consumed did not go through that branch, only its children did.)
\<close>

fun written :: "node \<Rightarrow> node" where
  "written (Text s) = Text s"
| "written (Arr ns) = Arr (map written ns)"
| "written (Element nm ps ch) =
     (if nm = Fragment \<or> nm = HTML \<or> nm = HEAD then Element nm ps (map written ch)
      else Element nm (aliasClass ps) (map written ch))"

section \<open>Construction of trees\<close>

text \<open>
  Every element is made by the constructor, directly or through \<^verbatim>\<open>createElement\<close> and
  the components. A value of \<open>jsx\<close> is an expression that builds a tree; \<open>build\<close>
  evaluates it. The symbols \<^verbatim>\<open>HTML\<close>, \<^verbatim>\<open>HEAD\<close>, \<^verbatim>\<open>CASE\<close> and \<^verbatim>\<open>DEFAULT\<close> are
  private to the module, so elements with these names come from the components only;
  \<open>XElement\<close> stands for any other call of the constructor, also one made by a
  generator function of the caller.
\<close>

datatype jsx =
    XText string
  | XArr "jsx list"
  | XElement ename "props option" "jsx list"
  | XHtmlPage props "jsx list"
  | XHead props "jsx list"
  | XIf bool "jsx list"
  | XSwitch jsval "jsx list"
  | XCase jsval "jsx list"
  | XDefault "jsx list"

fun build :: "jsx \<Rightarrow> node" where
  "build (XText s) = Text s"
| "build (XArr xs) = Arr (map build xs)"
| "build (XElement nm ps xs) = createElement nm ps (map build xs)"
| "build (XHtmlPage ps xs) = HtmlPage ps (map build xs)"
| "build (XHead ps xs) = Head ps (map build xs)"
| "build (XIf cond xs) = If_cond cond (map build xs)"
| "build (XSwitch expr xs) = Switch expr (map build xs)"
| "build (XCase c xs) = Case c (map build xs)"
| "build (XDefault xs) = Default (map build xs)"

section \<open>Predicates of the properties\<close>

fun isArr :: "node \<Rightarrow> bool" where
  "isArr (Arr xs) = True"
| "isArr (Text s) = False"
| "isArr (Element nm ps ch) = False"

fun isFragment :: "node \<Rightarrow> bool" where
  "isFragment (Element nm ps ch) = (nm = Fragment)"
| "isFragment (Text s) = False"
| "isFragment (Arr xs) = False"

text \<open>A list with no array and no fragment element among its members.\<close>

definition flatList :: "node list \<Rightarrow> bool" where
  "flatList ns = list_all (\<lambda>c. \<not> isArr c \<and> \<not> isFragment c) ns"

text \<open>Every element of the tree, at any depth, has a flat list of children.\<close>

fun flatInv :: "node \<Rightarrow> bool" where
  "flatInv (Text s) = True"
| "flatInv (Arr ns) = list_all flatInv ns"
| "flatInv (Element nm ps ch) = (flatList ch \<and> list_all flatInv ch)"




section \<open>Flattening\<close>

lemma flatten_append: "flatten (xs @ ys) = flatten xs @ flatten ys"
  by (induction xs rule: flatten.induct) simp_all

lemma flatList_flatten: "flatList (flatten L)"
  by (induction L rule: flatten.induct) (simp_all add: flatList_def)

lemma flatten_flatList: "flatList L \<Longrightarrow> flatten L = L"
  by (induction L rule: flatten.induct) (simp_all add: flatList_def)

lemma flatten_flatten: "flatten (flatten L) = flatten L"
  by (rule flatten_flatList [OF flatList_flatten])

text \<open>
  Claim C6. Flattening is idempotent: for every list of nodes \<open>L\<close>, nested to any depth,
  flattening the flattened list gives the flattened list; and a list that is already
  flat (no array and no fragment among its members) is returned as it is.
\<close>

theorem flatten_idempotent:
  "flatten (flatten L) = flatten L \<and> (flatList L \<longrightarrow> flatten L = L)"
  by (simp add: flatten_flatten flatten_flatList)

theorem flatten_idempotent_witness:
  "flatten (flatten [Arr [Text ''a'', Arr [Element Fragment [] [Text ''b'']]], Text ''c''])
     = [Text ''a'', Text ''b'', Text ''c'']
   \<and> flatList [Text ''a'', Element (Tag ''p'') [] [Arr []]]
   \<and> flatten [Text ''a'', Element (Tag ''p'') [] [Arr []]]
     = [Text ''a'', Element (Tag ''p'') [] [Arr []]]"
  using flatten_idempotent [of "[Arr [Text ''a'', Arr [Element Fragment [] [Text ''b'']]], Text ''c'']"]
    flatten_idempotent [of "[Text ''a'', Element (Tag ''p'') [] [Arr []]]"]
  by (simp add: flatList_def)

section \<open>The invariant of constructed trees\<close>

lemma flatInv_flatten: "list_all flatInv L \<Longrightarrow> list_all flatInv (flatten L)"
  by (induction L rule: flatten.induct) simp_all

lemma flatInv_newElement: "list_all flatInv cs \<Longrightarrow> flatInv (newElement nm ps cs)"
  by (simp add: newElement_def flatList_flatten flatInv_flatten)

lemma flatInv_elemChildren: "flatInv n \<Longrightarrow> list_all flatInv (elemChildren n)"
  by (cases n) simp_all

lemma find_list_all: "find P xs = Some x \<Longrightarrow> list_all Q xs \<Longrightarrow> Q x"
  by (induction xs) (auto split: if_splits)

lemma flatInv_Switch: "list_all flatInv cs \<Longrightarrow> flatInv (Switch expr cs)"
  by (auto simp: Switch_def split: option.splits
      intro!: flatInv_newElement flatInv_elemChildren dest: find_list_all)

lemma flatInv_build: "flatInv (build t)"
proof (induction t)
  case (XSwitch expr xs)
  then have "list_all flatInv (map build xs)" by (simp add: list_all_iff)
  then show ?case by (simp add: flatInv_Switch)
qed (simp_all add: list_all_iff createElement_def HtmlPage_def Head_def If_cond_def
      Case_def Default_def flatInv_newElement)

text \<open>
  Claim C7. Every element built by construction has a list of children with no array
  and no fragment element at its top level, and so has every element below it: the
  trees that \<open>build\<close> makes satisfy \<open>flatInv\<close>, and the constructor keeps the invariant
  for children that have it. The children the constructor stores are the flattened
  arguments, for any arguments. Flattening splices in place and keeps the order: an
  array and a fragment among the members are replaced, where they stand, by their own
  flattened members, and any other member stays where it is.
\<close>

theorem constructed_children_flat:
  "flatInv (build t)
   \<and> (list_all flatInv cs \<longrightarrow> flatInv (newElement nm ps cs))
   \<and> elemChildren (newElement nm ps cs) = flatten cs
   \<and> flatList (elemChildren (newElement nm ps cs))
   \<and> flatten (pre @ Arr xs # post) = flatten pre @ flatten xs @ flatten post
   \<and> flatten (pre @ Element Fragment qs ch # post) = flatten pre @ flatten ch @ flatten post
   \<and> (\<not> isArr c \<and> \<not> isFragment c \<longrightarrow> flatten (pre @ c # post) = flatten pre @ c # flatten post)"
proof -
  have atom: "flatten (c # post) = c # flatten post" if "\<not> isArr c" "\<not> isFragment c"
    using that by (cases c) simp_all
  have inv: "list_all flatInv cs \<longrightarrow> flatInv (newElement nm ps cs)"
    by (simp add: flatInv_newElement)
  have stored: "elemChildren (newElement nm ps cs) = flatten cs"
    by (simp add: newElement_def)
  have splice: "\<not> isArr c \<and> \<not> isFragment c \<longrightarrow>
      flatten (pre @ c # post) = flatten pre @ c # flatten post"
    by (simp add: flatten_append atom)
  show ?thesis
    using inv splice
    by (simp only: flatInv_build stored flatList_flatten flatten_append flatten.simps
        append_Nil2 append_assoc simp_thms if_True)
qed

theorem constructed_children_flat_witness:
  "flatInv (build (XElement (Tag ''div'') None
       [XArr [XText ''a'', XArr []], XIf True [XText ''b''], XElement Fragment None [XText ''c'']]))
   \<and> build (XElement (Tag ''div'') None
       [XArr [XText ''a'', XArr []], XIf True [XText ''b''], XElement Fragment None [XText ''c'']])
     = Element (Tag ''div'') [] [Text ''a'', Text ''b'', Text ''c'']
   \<and> list_all flatInv [Arr [Text ''a''], Text ''b'']
   \<and> flatInv (newElement (Tag ''p'') [] [Arr [Text ''a''], Text ''b''])
   \<and> \<not> isArr (Text ''x'') \<and> \<not> isFragment (Text ''x'')
   \<and> flatten ([Arr [Text ''a'']] @ Text ''x'' # [Text ''b'']) = [Text ''a'', Text ''x'', Text ''b'']"
  using constructed_children_flat [of
      "XElement (Tag ''div'') None
         [XArr [XText ''a'', XArr []], XIf True [XText ''b''], XElement Fragment None [XText ''c'']]"
      "[Arr [Text ''a''], Text ''b'']" "Tag ''p''" "[]" "[Arr [Text ''a'']]" "[]" "[Text ''b'']"
      "[]" "[]" "Text ''x''"]
  by (simp add: createElement_def newElement_def If_cond_def)

section \<open>Rendering: fragments and the document wrapper\<close>

lemma findIndex_None: "\<not> list_ex P xs \<Longrightarrow> findIndex P xs = None"
  by (induction xs) simp_all

lemma findIndex_first:
  "\<not> list_ex P pre \<Longrightarrow> P x \<Longrightarrow> findIndex P (pre @ x # post) = Some (length pre)"
  by (induction pre) simp_all

lemma splitHead_none: "\<not> list_ex isHead ch \<Longrightarrow> splitHead ch = ([], ch)"
  by (simp add: splitHead_def findIndex_None)

lemma splitHead_first:
  "\<not> list_ex isHead pre \<Longrightarrow> splitHead (pre @ Element HEAD hp hc # post) = (hc, pre @ post)"
  by (simp add: splitHead_def findIndex_first splice1_def)

lemma renderInternal_HTML:
  "renderInternal (Element HTML ps ch) options n =
     (case createIndent options n of
        Inl e \<Rightarrow> Inl e
      | Inr indentStr \<Rightarrow>
     (case renderEach (fst (splitHead ch)) options (n + 1) of
        Inl e \<Rightarrow> Inl e
      | Inr headTexts \<Rightarrow>
     (case renderEach (snd (splitHead ch)) options (n + 1) of
        Inl e \<Rightarrow> Inl e
      | Inr bodyTexts \<Rightarrow>
          Inr (indentStr @ ''<!DOCTYPE html>'' @ lineBreak options
             @ indentStr @ ''<html>'' @ lineBreak options
             @ indentStr @ ''<head>'' @ lineBreak options
             @ join (lineBreak options) headTexts
             @ (if indent options \<and> fst (splitHead ch) \<noteq> [] then newline else [])
             @ indentStr @ ''</head>'' @ lineBreak options
             @ indentStr @ ''<body>'' @ lineBreak options
             @ join (lineBreak options) bodyTexts
             @ (if snd (splitHead ch) \<noteq> [] \<and> indent options then newline else [])
             @ indentStr @ ''</body>'' @ lineBreak options
             @ indentStr @ ''</html>''))))"
  by (simp split: sum.splits)



text \<open>
  The constructor flattens arguments that are not flat before it stores them. An empty
  array among the arguments then leaves a line break in the rendering of the array,
  and none in the rendering of the fragment constructed from it.
\<close>

lemma fragment_constructed_from_nested:
  "renderInternal (newElement Fragment [] [Arr [], Text ''b''])
      (withDefaults (noOptions\<lparr>givenIndent := Some True\<rparr>)) 0 = Inr ''b''
   \<and> renderInternal (Arr [Arr [], Text ''b''])
      (withDefaults (noOptions\<lparr>givenIndent := Some True\<rparr>)) 0 = Inr (newline @ ''b'')"
  by (simp add: newElement_def withDefaults_def noOptions_def createIndent_def repeat_def
      lineBreak_def)

text \<open>
  Claim C4. An element named \<^verbatim>\<open>HTML\<close> renders, at its own indentation \<open>indentStr\<close>,
  to: the doctype line, the opening html tag, the opening head tag, the children of the
  first child named \<^verbatim>\<open>HEAD\<close> (nothing when there is none) rendered one level deeper,
  the closing head tag, the opening body tag, the remaining children (that first
  \<^verbatim>\<open>HEAD\<close> child removed) rendered one level deeper, the closing body tag and the
  closing html tag, in this order. With \<^verbatim>\<open>indent\<close> each of these is on a line of its
  own.
\<close>

theorem document_layout:
  assumes "createIndent options n = Inr indentStr"
    and "renderEach headContent options (n + 1) = Inr headTexts"
    and "renderEach body options (n + 1) = Inr bodyTexts"
    and "(\<exists>pre hp post. children = pre @ Element HEAD hp headContent # post
            \<and> \<not> list_ex isHead pre \<and> body = pre @ post)
         \<or> (\<not> list_ex isHead children \<and> headContent = [] \<and> body = children)"
  shows "renderInternal (Element HTML ps children) options n =
     Inr (indentStr @ ''<!DOCTYPE html>'' @ lineBreak options
        @ indentStr @ ''<html>'' @ lineBreak options
        @ indentStr @ ''<head>'' @ lineBreak options
        @ join (lineBreak options) headTexts
        @ (if indent options \<and> headContent \<noteq> [] then newline else [])
        @ indentStr @ ''</head>'' @ lineBreak options
        @ indentStr @ ''<body>'' @ lineBreak options
        @ join (lineBreak options) bodyTexts
        @ (if indent options \<and> body \<noteq> [] then newline else [])
        @ indentStr @ ''</body>'' @ lineBreak options
        @ indentStr @ ''</html>'')"
proof -
  from assms(4) have "splitHead children = (headContent, body)"
    by (auto simp: splitHead_none splitHead_first)
  with assms(1-3) show ?thesis
    by (simp add: renderInternal_HTML)
qed


theorem document_layout_witness:
  "renderInternal (Element HTML [] [Element HEAD [] [Text ''T''], Text ''B'']) (withDefaults noOptions) 0
     = Inr ''<!DOCTYPE html><html><head>T</head><body>B</body></html>''
   \<and> renderInternal (Element HTML [] [Text ''B'']) (withDefaults noOptions) 0
     = Inr ''<!DOCTYPE html><html><head></head><body>B</body></html>''"
proof -
  let ?o = "withDefaults noOptions"
  have i: "createIndent ?o 0 = Inr []"
    by (simp add: withDefaults_def noOptions_def createIndent_def)
  have l: "lineBreak ?o = []" "\<not> indent ?o"
    by (simp_all add: withDefaults_def noOptions_def lineBreak_def)
  have h: "renderEach [Text ''T''] ?o (0 + 1) = Inr [''T'']"
    by (simp add: withDefaults_def noOptions_def createIndent_def)
  have b: "renderEach [Text ''B''] ?o (0 + 1) = Inr [''B'']"
    by (simp add: withDefaults_def noOptions_def createIndent_def)
  have e: "renderEach [] ?o (0 + 1) = Inr []"
    by simp
  have s1: "(\<exists>pre hp post. [Element HEAD [] [Text ''T''], Text ''B''] = pre @ Element HEAD hp [Text ''T''] # post
            \<and> \<not> list_ex isHead pre \<and> [Text ''B''] = pre @ post)
         \<or> (\<not> list_ex isHead [Element HEAD [] [Text ''T''], Text ''B''] \<and> [Text ''T''] = [] \<and> [Text ''B''] = [Element HEAD [] [Text ''T''], Text ''B''])"
    by (rule disjI1, rule exI [of _ "[]"]) simp
  have s2: "(\<exists>pre hp post. [Text ''B''] = pre @ Element HEAD hp [] # post
            \<and> \<not> list_ex isHead pre \<and> [Text ''B''] = pre @ post)
         \<or> (\<not> list_ex isHead [Text ''B''] \<and> ([]::node list) = [] \<and> [Text ''B''] = [Text ''B''])"
    by simp
  from document_layout [OF i h b s1, of "[]"] document_layout [OF i e b s2, of "[]"] l
  show ?thesis by simp
qed

text \<open>
  Claim C10. Rendering an element named \<^verbatim>\<open>HTML\<close> does not read its attributes: two
  such elements with the same children render to the same result whatever their
  attributes are, and the output has the opening tag \<^verbatim>\<open><html>\<close> with nothing between
  the name and the closing bracket.
\<close>

theorem document_ignores_attributes:
  "renderInternal (Element HTML ps ch) options n = renderInternal (Element HTML ps' ch) options n
   \<and> (renderInternal (Element HTML ps ch) options n = Inr out \<longrightarrow>
        (\<exists>indentStr rest. createIndent options n = Inr indentStr
           \<and> out = indentStr @ ''<!DOCTYPE html>'' @ lineBreak options
                 @ indentStr @ ''<html>'' @ lineBreak options
                 @ indentStr @ ''<head>'' @ rest))"
  by (auto simp only: renderInternal_HTML split: sum.splits)

theorem document_ignores_attributes_witness:
  "renderInternal (Element HTML [(''lang'', JStr ''en'')] [Text ''hi'']) (withDefaults noOptions) 0
     = Inr ''<!DOCTYPE html><html><head></head><body>hi</body></html>''
   \<and> renderInternal (Element HTML [] [Text ''hi'']) (withDefaults noOptions) 0
     = Inr ''<!DOCTYPE html><html><head></head><body>hi</body></html>''"
proof -
  have "renderInternal (Element HTML [] [Text ''hi'']) (withDefaults noOptions) 0
     = Inr ''<!DOCTYPE html><html><head></head><body>hi</body></html>''"
    by (simp add: withDefaults_def noOptions_def createIndent_def splitHead_def lineBreak_def)
  with document_ignores_attributes [of "[(''lang'', JStr ''en'')]" "[Text ''hi'']"
      "withDefaults noOptions" 0 "[]"]
  show ?thesis by simp
qed

section \<open>Switch\<close>














section \<open>Rendering: exceptions\<close>










text \<open>
  Two more exceptions, which the hypotheses of \<open>render_total\<close> exclude: a negative
  \<^verbatim>\<open>indentSize\<close> makes \<^verbatim>\<open>" ".repeat\<close> raise RangeError below the top level, and an
  attribute whose value is a symbol cannot be converted to a string.
\<close>

lemma render_other_exceptions:
  "render (Element (Tag ''div'') [] [Text ''x''])
      (noOptions\<lparr>givenIndent := Some True, givenIndentSize := Some (- 1)\<rparr>) 0 = Inl RangeError
   \<and> render (Element (Tag ''div'') [(''id'', JSym 0)] []) noOptions 0 = Inl TypeError"
  by (simp add: render_def withDefaults_def noOptions_def aliasClass_def getProp_def
      createIndent_def repeat_def)

section \<open>Rendering: self-closing tags\<close>

text \<open>
  Claim C9 at the options \<^verbatim>\<open>{ useSelfCloseTags: ["1"] }\<close>. The tag name img is not in
  the list, and the element without children is still rendered self-closing, because
  the test \<^verbatim>\<open>options.useSelfCloseTags == true\<close> holds for this array.
\<close>

theorem selfclose_coerced_list:
  "''img'' \<notin> set [''1'']
   \<and> render (Element (Tag ''img'') [] [])
        (noOptions\<lparr>givenUseSelfCloseTags := Some (SCList [''1''])\<rparr>) 0 = Inr ''<img />''"
  by (simp add: render_def withDefaults_def noOptions_def aliasClass_def getProp_def
      createIndent_def StringToNumber_def trim_def isWhiteSpace_def unsignedDecimal_def
      digitValue_def digitChars_def)

text \<open>
  The four examples of the claim, and the general form of an element without children:
  it is self-closing exactly when \<^verbatim>\<open>useSelfCloseTags == true\<close> holds or the list has
  its name. An element with children always ends with its closing tag.
\<close>

lemma selfclose_examples:
  "render (Element (Tag ''img'') [] []) (noOptions\<lparr>givenUseSelfCloseTags := Some (SCBool True)\<rparr>) 0
     = Inr ''<img />''
   \<and> render (Element (Tag ''img'') [] []) (noOptions\<lparr>givenUseSelfCloseTags := Some (SCList [''img''])\<rparr>) 0
     = Inr ''<img />''
   \<and> render (Element (Tag ''img'') [] []) (noOptions\<lparr>givenUseSelfCloseTags := Some (SCBool False)\<rparr>) 0
     = Inr ''<img></img>''
   \<and> render (Element (Tag ''img'') [] []) (noOptions\<lparr>givenUseSelfCloseTags := Some (SCList [''br''])\<rparr>) 0
     = Inr ''<img></img>''"
  by (simp add: render_def withDefaults_def noOptions_def aliasClass_def getProp_def
      createIndent_def StringToNumber_def trim_def isWhiteSpace_def unsignedDecimal_def
      digitValue_def digitChars_def lineBreak_def)

lemma selfclose_generic:
  assumes "createAttrs (aliasClass ps) = Inr attrs" and "createIndent options n = Inr indentStr"
  shows "renderInternal (Element (Tag t) ps []) options n =
     Inr (indentStr @ ''<'' @ t @ attrs @
       (if equalsTrue (useSelfCloseTags options) \<or> includesName (useSelfCloseTags options) (Tag t)
        then '' />'' else ''></'' @ t @ ''>''))"
  using assms by simp

lemma selfclose_with_children:
  assumes "ch \<noteq> []" and "renderInternal (Element (Tag t) ps ch) options n = Inr out"
  shows "\<exists>body. out = body @ ''</'' @ t @ ''>''"
  using assms by (auto simp: Let_def split: sum.splits)

section \<open>Rendering: the class attribute\<close>





lemma getProp_setProp: "getProp (setProp ps k v) k = v"
  by (induction ps) (auto simp: getProp_def)

lemma aliasClass_idem: "aliasClass (aliasClass ps) = aliasClass ps"
proof (cases "truthy (getProp ps ''className'') \<and> \<not> truthy (getProp ps ''class'')")
  case True
  let ?ps' = "setProp ps ''class'' (getProp ps ''className'')"
  from True have "truthy (getProp ?ps' ''class'')"
    by (simp add: getProp_setProp)
  then have "aliasClass ?ps' = ?ps'"
    by (simp add: aliasClass_def)
  moreover from True have "aliasClass ps = ?ps'"
    by (simp add: aliasClass_def)
  ultimately show ?thesis by simp
next
  case False
  then have "aliasClass ps = ps" by (auto simp: aliasClass_def)
  then show ?thesis by simp
qed






text \<open>
  The attribute \<^verbatim>\<open>className\<close> itself stays in the object and is written out with the
  others.
\<close>

lemma className_emitted:
  \<open>render (Element (Tag ''div'') [(''className'', JStr ''x'')] []) noOptions 0
     = Inr ''<div className="x" class="x" />''\<close>
  by (simp add: render_def withDefaults_def noOptions_def aliasClass_def getProp_def
      createIndent_def attrText_def)

section \<open>Rendering a tree again\<close>

text \<open>
  The write into the attributes does not change what a later rendering returns: a tree
  that has been rendered renders to the same string again. So the result of
  \<^verbatim>\<open>renderInternal\<close> is a function of the tree and the options, also when an object
  occurs in the tree more than once.
\<close>

lemma isHead_written: "isHead (written c) = isHead c"
  by (cases c) simp_all

lemma findIndex_map_written: "findIndex isHead (map written ch) = findIndex isHead ch"
  by (induction ch) (simp_all add: isHead_written)

lemma elemChildren_written: "elemChildren (written c) = map written (elemChildren c)"
  by (cases c) simp_all

lemma splitHead_written:
  "splitHead (map written ch) = (map written (fst (splitHead ch)), map written (snd (splitHead ch)))"
proof (cases "findIndex isHead ch")
  case None
  then show ?thesis by (simp add: splitHead_def findIndex_map_written)
next
  case (Some i)
  then have "i < length ch" by (simp add: findIndex_Some)
  with Some show ?thesis
    by (simp add: splitHead_def findIndex_map_written splice1_def elemChildren_written
        take_map drop_map)
qed

lemma renderInternal_Tag:
  "renderInternal (Element (Tag t) ps ch) options n =
     (case createAttrs (aliasClass ps) of
        Inl e \<Rightarrow> Inl e
      | Inr attrs \<Rightarrow>
     (case createIndent options n of
        Inl e \<Rightarrow> Inl e
      | Inr indentStr \<Rightarrow>
          if ch = [] \<and> (equalsTrue (useSelfCloseTags options)
                          \<or> includesName (useSelfCloseTags options) (Tag t))
          then Inr (indentStr @ ''<'' @ t @ attrs @ '' />'')
          else
            (case renderEach ch options (n + 1) of
               Inl e \<Rightarrow> Inl e
             | Inr ss \<Rightarrow>
                 Inr (indentStr @ ''<'' @ t @ attrs @ ''>''
                    @ (if ch \<noteq> [] \<and> indent options then newline else [])
                    @ join (lineBreak options) ss
                    @ (if ch \<noteq> [] \<and> indent options then newline @ indentStr else [])
                    @ ''</'' @ t @ ''>''))))"
  by (auto simp: Let_def split: sum.splits)

lemma render_generic_cong:
  assumes "createAttrs (aliasClass ps') = createAttrs (aliasClass ps)"
    and "(ch' = []) = (ch = [])"
    and "renderEach ch' options (n + 1) = renderEach ch options (n + 1)"
  shows "renderInternal (Element (Tag t) ps' ch') options n
       = renderInternal (Element (Tag t) ps ch) options n"
  by (simp only: renderInternal_Tag assms)

lemma render_written:
  "(renderInternal nd options n = Inr s \<longrightarrow> renderInternal (written nd) options n = Inr s)"
  "(renderEach ns options n = Inr ss \<longrightarrow> renderEach (map written ns) options n = Inr ss)"
proof (induction nd options n and ns options n arbitrary: s and ss
    rule: renderInternal_renderEach.induct)
  case (1 options n)
  show ?case by simp
next
  case (2 nd ns options n)
  show ?case
  proof
    assume "renderEach (nd # ns) options n = Inr ss"
    then obtain s0 ss0 where s0: "renderInternal nd options n = Inr s0"
      and ss0: "renderEach ns options n = Inr ss0" and ss: "ss = s0 # ss0"
      by (auto split: sum.splits)
    from "2.IH"(1) s0 have "renderInternal (written nd) options n = Inr s0" by simp
    moreover from "2.IH"(2) [OF s0] ss0 have "renderEach (map written ns) options n = Inr ss0"
      by simp
    ultimately show "renderEach (map written (nd # ns)) options n = Inr ss"
      using ss by simp
  qed
next
  case (3 s options n)
  show ?case by simp
next
  case (4 ns options n)
  then show ?case by (auto split: sum.splits)
next
  case (5 nm ps ch options n)
  show ?case
  proof (intro impI)
    assume r: "renderInternal (Element nm ps ch) options n = Inr s"
    show "renderInternal (written (Element nm ps ch)) options n = Inr s"
    proof (cases nm)
      case Fragment
      with r "5.IH"(1) show ?thesis by (auto split: sum.splits)
    next
      case HTML
      from r HTML obtain ind ht bt where ind: "createIndent options n = Inr ind"
        and ht: "renderInternal (Arr (fst (splitHead ch))) options (n + 1) = Inr ht"
        and bt: "renderEach (snd (splitHead ch)) options (n + 1) = Inr bt"
        by (auto split: sum.splits)
      from "5.IH"(2) [OF _ HTML ind] HTML ht
      have ht': "renderInternal (Arr (map written (fst (splitHead ch)))) options (n + 1) = Inr ht"
        by simp
      from "5.IH"(3) [OF _ HTML ind ht] HTML bt
      have bt': "renderEach (map written (snd (splitHead ch))) options (n + 1) = Inr bt"
        by simp
      from r HTML ind ht bt ht' bt' show ?thesis
        by (simp add: splitHead_written)
    next
      case (Tag t)
      from r Tag obtain attrs ind where attrs: "createAttrs (aliasClass ps) = Inr attrs"
        and ind: "createIndent options n = Inr ind"
        by (auto simp: Let_def split: sum.splits)
      have "renderEach (map written ch) options (n + 1) = renderEach ch options (n + 1)"
      proof (cases "ch = [] \<and> (equalsTrue (useSelfCloseTags options)
                                      \<or> includesName (useSelfCloseTags options) nm)")
        case True
        then show ?thesis by simp
      next
        case False
        from r Tag attrs ind False obtain ss where ss: "renderEach ch options (n + 1) = Inr ss"
          by (auto simp: Let_def split: sum.splits)
        from "5.IH"(4) [OF _ _ refl attrs ind _ False] Tag ss
        show ?thesis by simp
      qed
      then have "renderInternal (Element (Tag t) (aliasClass ps) (map written ch)) options n
          = renderInternal (Element (Tag t) ps ch) options n"
        by (intro render_generic_cong) (simp_all add: aliasClass_idem)
      with r Tag show ?thesis by simp
    next
      case HEAD
      with r show ?thesis by (simp split: sum.splits)
    next
      case CASE
      with r show ?thesis by (simp split: sum.splits)
    next
      case DEFAULT
      with r show ?thesis by (simp split: sum.splits)
    qed
  qed
qed

end
